theory Spec2Isabelle
  imports Complex_Main
begin

section \<open>The shared-fuel ledger of main.py\<close>

text \<open>
  The bot keeps one \<open>State\<close> object and mutates it in its command handlers. Each handler
  is modelled as a function from the caller's user id, the parsed command arguments and
  the state to the reply it sends and the state it leaves behind.

  Numbers: Python's \<open>float\<close> is modelled by \<open>real\<close>: the model computes each sum,
  difference and quotient without rounding, and has no infinity and no NaN. The
  properties below are therefore of two kinds only: equations that give a new balance as
  the expression the source assigns to it, and order facts (a balance is at least 0, a
  total does not grow) that rounding to the nearest double keeps. The concrete inputs
  used below are dyadic or small integers, on which the float operations are exact as
  well. The tolerance \<open>1e-9\<close> is
  \<open>1 / 1000000000\<close>; the double of that literal is the least double above it, so on
  doubles \<open>debt < 1e-9\<close> and \<open>debt < 1 / 1000000000\<close> agree.

  Arguments: \<open>float(context.args[i])\<close> is modelled by a \<open>real option\<close>: \<open>Some x\<close> is
  text that parses to the finite number \<open>x\<close>, \<open>None\<close> is a missing argument
  (IndexError) or text that does not parse (ValueError). The texts \<open>nan\<close> and \<open>inf\<close>,
  which \<open>float\<close> also accepts, have no counterpart: the properties speak of commands with
  finite numbers.
\<close>

subsection \<open>Config and state\<close>

datatype bucket = Aditya | Archit

definition ALLOWED_BUCKETS :: "string list" where
  "ALLOWED_BUCKETS = [''Aditya'', ''Archit'']"

text \<open>The two names of \<open>ALLOWED_BUCKETS\<close> as values of the enumeration.\<close>

definition bucket_of_name :: "string \<Rightarrow> bucket option" where
  "bucket_of_name n =
     (if n = ALLOWED_BUCKETS ! 0 then Some Aditya
      else if n = ALLOWED_BUCKETS ! 1 then Some Archit
      else None)"

definition DEFAULT_MILEAGE :: real where
  "DEFAULT_MILEAGE = 40"

text \<open>
  The dataclass \<open>State\<close>. The dictionaries \<open>tank\<close> and \<open>debt\<close> are created with exactly the
  two bucket names as keys and no handler adds or removes a key, so they are total
  functions on \<open>bucket\<close>. The field \<open>ride_start\<close> is named \<open>ride_start_map\<close> here, since
  the handler of the same name keeps the name.
\<close>

record State =
  users :: "string \<rightharpoonup> bucket"
  tank :: "bucket \<Rightarrow> real"
  debt :: "bucket \<Rightarrow> real"
  ride_start_map :: "string \<rightharpoonup> real"
  mileage :: real
  last_price_per_liter :: real

text \<open>\<open>State()\<close>: the default factories of the dataclass.\<close>

definition default_state :: State where
  "default_state =
     \<lparr> users = Map.empty,
       tank = (\<lambda>b. 0),
       debt = (\<lambda>b. 0),
       ride_start_map = Map.empty,
       mileage = DEFAULT_MILEAGE,
       last_price_per_liter = 0 \<rparr>"

subsection \<open>Replies\<close>

text \<open>
  Every handler answers with one text message. The messages that report a refusal are the
  constructors of \<open>error\<close>, named as the specification names them; the others are the
  constructors of \<open>reply\<close>, carrying the numbers the message prints. Where one
  \<open>except\<close> clause answers a missing, an unparsable and a non-positive argument with the
  same usage text (\<open>set_mileage\<close>, \<open>fill\<close>), that answer is \<open>InvalidValue\<close>.
\<close>

datatype error =
    NotRegistered
  | UsageError
  | InvalidBucket
  | InvalidValue
  | NoRideStarted
  | NegativeDistance
  | NoMileage
  | InsufficientFuel real real
  | NoPriceSet
  | NoDebt

datatype debt_msg =
    AllSquare
  | YouOwe real real
  | OtherOwes real real

datatype reply =
    HelpText
  | Registered bucket
  | MileageSet real
  | RideStarted real
  | RideEnded real real real bucket
  | FillRecorded real real real
  | StatusReport real real debt_msg real real
  | SettleReport real real real
  | DebtClearedFull real
  | Paid real real real
  | ResetDone
  | UnknownCommand

type_synonym result = "error + reply"

subsection \<open>Helpers\<close>

definition user_bucket :: "string \<Rightarrow> State \<Rightarrow> bucket option" where
  "user_bucket uid state = users state uid"

definition other_bucket :: "bucket \<Rightarrow> bucket" where
  "other_bucket b = (if b = Aditya then Archit else Aditya)"

text \<open>
  \<open>require_registered\<close> returns the caller's bucket, or \<open>None\<close> after replying that the
  caller is not registered; the handlers turn \<open>None\<close> into the reply \<open>NotRegistered\<close>.
\<close>

definition require_registered :: "string \<Rightarrow> State \<Rightarrow> bucket option" where
  "require_registered uid state = user_bucket uid state"

subsection \<open>Commands\<close>

definition start :: "State \<Rightarrow> result \<times> State" where
  "start state = (Inr HelpText, state)"

text \<open>The argument of \<open>register\<close> is \<open>context.args[0].strip().title()\<close> when present.\<close>

definition register :: "string \<Rightarrow> string option \<Rightarrow> State \<Rightarrow> result \<times> State" where
  "register uid arg state =
     (case arg of
        None \<Rightarrow> (Inl UsageError, state)
      | Some name \<Rightarrow>
          (case bucket_of_name name of
             None \<Rightarrow> (Inl InvalidBucket, state)
           | Some b \<Rightarrow> (Inr (Registered b), state\<lparr>users := (users state)(uid \<mapsto> b)\<rparr>)))"

definition set_mileage :: "string \<Rightarrow> real option \<Rightarrow> State \<Rightarrow> result \<times> State" where
  "set_mileage uid arg state =
     (case require_registered uid state of
        None \<Rightarrow> (Inl NotRegistered, state)
      | Some _ \<Rightarrow>
          (case arg of
             None \<Rightarrow> (Inl InvalidValue, state)
           | Some kmpl \<Rightarrow>
               if kmpl \<le> 0 then (Inl InvalidValue, state)
               else (Inr (MileageSet kmpl), state\<lparr>mileage := kmpl\<rparr>)))"

definition ride_start :: "string \<Rightarrow> real option \<Rightarrow> State \<Rightarrow> result \<times> State" where
  "ride_start uid arg state =
     (case require_registered uid state of
        None \<Rightarrow> (Inl NotRegistered, state)
      | Some _ \<Rightarrow>
          (case arg of
             None \<Rightarrow> (Inl UsageError, state)
           | Some start_km \<Rightarrow>
               (Inr (RideStarted start_km),
                state\<lparr>ride_start_map := (ride_start_map state)(uid \<mapsto> start_km)\<rparr>)))"

text \<open>
  \<open>ride_end\<close> pops the start reading before it checks anything about the ride, and puts
  it back on two of its three refusals. The model keeps the popped state \<open>s1\<close> and the
  three tank and debt assignments of the borrowing branch in the source's order.
\<close>

definition ride_end :: "string \<Rightarrow> real option \<Rightarrow> State \<Rightarrow> result \<times> State" where
  "ride_end uid arg state =
     (case require_registered uid state of
        None \<Rightarrow> (Inl NotRegistered, state)
      | Some bucket \<Rightarrow>
          (case ride_start_map state uid of
             None \<Rightarrow> (Inl NoRideStarted, state)
           | Some start_km \<Rightarrow>
               (case arg of
                  None \<Rightarrow> (Inl UsageError, state)
                | Some end_km \<Rightarrow>
                    (let s1 = state\<lparr>ride_start_map := (ride_start_map state)(uid := None)\<rparr>;
                         distance = end_km - start_km
                     in if distance < 0
                        then (Inl NegativeDistance,
                              s1\<lparr>ride_start_map := (ride_start_map s1)(uid \<mapsto> start_km)\<rparr>)
                        else if mileage s1 \<le> 0
                        then (Inl NoMileage, s1)
                        else
                          (let used_l = distance / mileage s1;
                               me = bucket;
                               other = other_bucket bucket;
                               available_total = tank s1 me + tank s1 other
                           in if used_l > available_total + 1 / 1000000000
                              then (Inl (InsufficientFuel used_l available_total),
                                    s1\<lparr>ride_start_map := (ride_start_map s1)(uid \<mapsto> start_km)\<rparr>)
                              else if tank s1 me \<ge> used_l
                              then (Inr (RideEnded distance used_l 0 other),
                                    s1\<lparr>tank := (tank s1)(me := tank s1 me - used_l)\<rparr>)
                              else
                                (let borrowed = used_l - tank s1 me;
                                     s2 = s1\<lparr>tank := (tank s1)(me := 0)\<rparr>;
                                     s3 = s2\<lparr>tank := (tank s2)(other := tank s2 other - borrowed)\<rparr>;
                                     s4 = s3\<lparr>debt := (debt s3)(me := debt s3 me + borrowed)\<rparr>
                                 in (Inr (RideEnded distance used_l borrowed other), s4)))))))"

definition fill :: "string \<Rightarrow> real option \<Rightarrow> real option \<Rightarrow> State \<Rightarrow> result \<times> State" where
  "fill uid arg0 arg1 state =
     (case require_registered uid state of
        None \<Rightarrow> (Inl NotRegistered, state)
      | Some bucket \<Rightarrow>
          (case arg0 of
             None \<Rightarrow> (Inl InvalidValue, state)
           | Some liters \<Rightarrow>
               (case arg1 of
                  None \<Rightarrow> (Inl InvalidValue, state)
                | Some total_cost \<Rightarrow>
                    if liters \<le> 0 \<or> total_cost \<le> 0 then (Inl InvalidValue, state)
                    else
                      (let price = total_cost / liters;
                           s1 = state\<lparr>last_price_per_liter := price\<rparr>;
                           other = other_bucket bucket;
                           clear_l = min liters (debt s1 bucket);
                           s2 = (if clear_l > 0
                                 then (let t1 = s1\<lparr>debt := (debt s1)(bucket := debt s1 bucket - clear_l)\<rparr>
                                       in t1\<lparr>tank := (tank t1)(other := tank t1 other + clear_l)\<rparr>)
                                 else s1);
                           remaining_liters = liters - clear_l;
                           s3 = s2\<lparr>tank := (tank s2)(bucket := tank s2 bucket + remaining_liters)\<rparr>
                       in (Inr (FillRecorded clear_l remaining_liters price), s3)))))"

definition status :: "string \<Rightarrow> State \<Rightarrow> result \<times> State" where
  "status uid state =
     (case require_registered uid state of
        None \<Rightarrow> (Inl NotRegistered, state)
      | Some bucket \<Rightarrow>
          (let me = bucket;
               other = other_bucket bucket;
               msg = (if debt state me > debt state other
                      then YouOwe (debt state me - debt state other)
                             ((debt state me - debt state other) * last_price_per_liter state)
                      else if debt state other > debt state me
                      then OtherOwes (debt state other - debt state me)
                             ((debt state other - debt state me) * last_price_per_liter state)
                      else AllSquare)
           in (Inr (StatusReport (tank state Aditya) (tank state Archit) msg
                      (mileage state) (last_price_per_liter state)),
               state)))"

definition settle :: "string \<Rightarrow> State \<Rightarrow> result \<times> State" where
  "settle uid state =
     (case require_registered uid state of
        None \<Rightarrow> (Inl NotRegistered, state)
      | Some bucket \<Rightarrow>
          (let price = last_price_per_liter state
           in if price \<le> 0 then (Inl NoPriceSet, state)
              else
                (let liters_owed = debt state bucket;
                     cash_value = liters_owed * price
                 in (Inr (SettleReport liters_owed price cash_value), state))))"

text \<open>
  The argument of \<open>pay\<close> is \<open>context.args[0].strip().lower()\<close>: the word \<open>full\<close>, text that
  \<open>float\<close> parses, or text that it does not; \<open>None\<close> is the missing argument.
\<close>

datatype pay_arg = Full | Amount real | Unparsable

definition pay :: "string \<Rightarrow> pay_arg option \<Rightarrow> State \<Rightarrow> result \<times> State" where
  "pay uid arg state =
     (case require_registered uid state of
        None \<Rightarrow> (Inl NotRegistered, state)
      | Some bucket \<Rightarrow>
          (case arg of
             None \<Rightarrow> (Inl UsageError, state)
           | Some a \<Rightarrow>
               (let price = last_price_per_liter state;
                    other = other_bucket bucket
                in case a of
                     Full \<Rightarrow>
                       (let cleared_l = debt state bucket
                        in if cleared_l \<le> 0 then (Inl NoDebt, state)
                           else
                             (let s1 = state\<lparr>debt := (debt state)(bucket := 0)\<rparr>;
                                  s2 = s1\<lparr>tank := (tank s1)(other := tank s1 other + cleared_l)\<rparr>
                              in (Inr (DebtClearedFull cleared_l), s2)))
                   | Unparsable \<Rightarrow> (Inl InvalidValue, state)
                   | Amount amount \<Rightarrow>
                       if amount \<le> 0 then (Inl InvalidValue, state)
                       else if price \<le> 0 then (Inl NoPriceSet, state)
                       else
                         (let liters_to_clear = amount / price;
                              debt_before = debt state bucket
                          in if debt_before < 1 / 1000000000 then (Inl NoDebt, state)
                             else
                               (let actual_cleared_l = min debt_before liters_to_clear;
                                    s1 = state\<lparr>debt := (debt state)(bucket := debt state bucket - actual_cleared_l)\<rparr>;
                                    s2 = s1\<lparr>tank := (tank s1)(other := tank s1 other + actual_cleared_l)\<rparr>
                                in (Inr (Paid amount actual_cleared_l (debt s2 bucket)), s2))))))"

definition reset :: "State \<Rightarrow> result \<times> State" where
  "reset state = (Inr ResetDone, default_state)"

definition unknown :: "State \<Rightarrow> result \<times> State" where
  "unknown state = (Inr UnknownCommand, state)"

subsection \<open>The dispatcher and the reachable states\<close>

text \<open>
  One constructor per \<open>CommandHandler\<close> of \<open>main\<close>, with the caller's id and the parsed
  arguments. \<open>post_init\<close> installs \<open>State()\<close> on the first start, so the reachable states
  are the states \<open>exec cs default_state\<close>.
\<close>

datatype command =
    Start
  | Register string "string option"
  | SetMileage string "real option"
  | RideStart string "real option"
  | RideEnd string "real option"
  | Fill string "real option" "real option"
  | Status string
  | Settle string
  | Pay string "pay_arg option"
  | Reset
  | Unknown

fun handle :: "command \<Rightarrow> State \<Rightarrow> result \<times> State" where
  "handle Start s = start s"
| "handle (Register uid a) s = register uid a s"
| "handle (SetMileage uid a) s = set_mileage uid a s"
| "handle (RideStart uid a) s = ride_start uid a s"
| "handle (RideEnd uid a) s = ride_end uid a s"
| "handle (Fill uid a0 a1) s = fill uid a0 a1 s"
| "handle (Status uid) s = status uid s"
| "handle (Settle uid) s = settle uid s"
| "handle (Pay uid a) s = pay uid a s"
| "handle Reset s = reset s"
| "handle Unknown s = unknown s"

fun exec :: "command list \<Rightarrow> State \<Rightarrow> State" where
  "exec [] s = s"
| "exec (c # cs) s = exec cs (snd (handle c s))"

subsection \<open>Two concrete runs\<close>

text \<open>
  \<open>tiny_ride\<close>: one registered rider, no fuel ever filled, and a ride that needs
  \<open>2 ^ -30\<close> litres, which is below the tolerance of the fuel check.
  \<open>borrow_run\<close>: Archit fills 20 litres for 2000, Aditya rides 40 km at the default
  mileage on an empty tank of their own.
\<close>

definition tiny_ride :: "command list" where
  "tiny_ride =
     [Register ''u1'' (Some ''Aditya''), SetMileage ''u1'' (Some 1073741824),
      RideStart ''u1'' (Some 0), RideEnd ''u1'' (Some 1)]"

definition borrow_run :: "command list" where
  "borrow_run =
     [Register ''u1'' (Some ''Aditya''), Register ''u2'' (Some ''Archit''),
      Fill ''u2'' (Some 20) (Some 2000), RideStart ''u1'' (Some 0), RideEnd ''u1'' (Some 40)]"

text \<open>
  \<open>ride_ready\<close>: as \<open>borrow_run\<close>, stopped before the ride ends. \<open>own_fuel\<close>: Aditya fills
  10 litres and starts a ride.
\<close>

definition ride_ready :: "command list" where
  "ride_ready =
     [Register ''u1'' (Some ''Aditya''), Register ''u2'' (Some ''Archit''),
      Fill ''u2'' (Some 20) (Some 2000), RideStart ''u1'' (Some 0)]"

definition own_fuel :: "command list" where
  "own_fuel =
     [Register ''u1'' (Some ''Aditya''), Fill ''u1'' (Some 10) (Some 1000),
      RideStart ''u1'' (Some 0)]"

text \<open>
  A state whose mileage is 0, with a ride in progress. \<open>set_mileage\<close> never stores such a
  mileage; the object can come from the pickle file, which \<open>post_init\<close> takes as it is,
  and it is the state the mileage guard of \<open>ride_end\<close> is written for.
\<close>

definition no_mileage_state :: State where
  "no_mileage_state =
     default_state\<lparr>users := [''u1'' \<mapsto> Aditya], ride_start_map := [''u1'' \<mapsto> 100],
       mileage := 0\<rparr>"


text \<open>
  \<open>archit_borrows\<close>: the mirror image of \<open>borrow_run\<close>, with Archit riding on Aditya's
  fuel, so that Archit is the debtor.
\<close>

definition archit_borrows :: "command list" where
  "archit_borrows =
     [Register ''u1'' (Some ''Aditya''), Register ''u2'' (Some ''Archit''),
      Fill ''u1'' (Some 20) (Some 2000), RideStart ''u2'' (Some 0), RideEnd ''u2'' (Some 40)]"

text \<open>
  The signs of the balances, and the total of the two tanks.
\<close>

definition debts_ok :: "State \<Rightarrow> bool" where
  "debts_ok s \<longleftrightarrow> 0 \<le> debt s Aditya \<and> 0 \<le> debt s Archit"



section \<open>Properties\<close>

subsection \<open>Basic facts\<close>

lemmas handler_defs = require_registered_def user_bucket_def

lemmas run_defs =
  start_def register_def set_mileage_def ride_start_def ride_end_def fill_def status_def
  settle_def pay_def reset_def unknown_def require_registered_def user_bucket_def
  other_bucket_def bucket_of_name_def ALLOWED_BUCKETS_def DEFAULT_MILEAGE_def
  default_state_def Let_def

lemma other_bucket_neq [simp]: "other_bucket b \<noteq> b" "b \<noteq> other_bucket b"
  by (cases b; simp add: other_bucket_def)+

lemma tiny_ride_state:
  "exec tiny_ride default_state =
     \<lparr> users = [''u1'' \<mapsto> Aditya],
       tank = (\<lambda>b. 0)(Archit := - (1 / 1073741824)),
       debt = (\<lambda>b. 0)(Aditya := 1 / 1073741824),
       ride_start_map = Map.empty,
       mileage = 1073741824,
       last_price_per_liter = 0 \<rparr>"
  by (simp add: tiny_ride_def run_defs fun_eq_iff)

lemma borrow_run_state:
  "exec borrow_run default_state =
     \<lparr> users = [''u1'' \<mapsto> Aditya, ''u2'' \<mapsto> Archit],
       tank = (\<lambda>b. 0)(Archit := 19),
       debt = (\<lambda>b. 0)(Aditya := 1),
       ride_start_map = Map.empty,
       mileage = 40,
       last_price_per_liter = 100 \<rparr>"
  by (simp add: borrow_run_def run_defs fun_eq_iff)

lemma ride_ready_state:
  "exec ride_ready default_state =
     \<lparr> users = [''u1'' \<mapsto> Aditya, ''u2'' \<mapsto> Archit],
       tank = (\<lambda>b. 0)(Archit := 20),
       debt = (\<lambda>b. 0),
       ride_start_map = [''u1'' \<mapsto> 0],
       mileage = 40,
       last_price_per_liter = 100 \<rparr>"
  by (simp add: ride_ready_def run_defs fun_eq_iff)

lemma own_fuel_state:
  "exec own_fuel default_state =
     \<lparr> users = [''u1'' \<mapsto> Aditya],
       tank = (\<lambda>b. 0)(Aditya := 10),
       debt = (\<lambda>b. 0),
       ride_start_map = [''u1'' \<mapsto> 0],
       mileage = 40,
       last_price_per_liter = 100 \<rparr>"
  by (simp add: own_fuel_def run_defs fun_eq_iff)

lemma archit_borrows_state:
  "exec archit_borrows default_state =
     \<lparr> users = [''u1'' \<mapsto> Aditya, ''u2'' \<mapsto> Archit],
       tank = (\<lambda>b. 0)(Aditya := 19),
       debt = (\<lambda>b. 0)(Archit := 1),
       ride_start_map = Map.empty,
       mileage = 40,
       last_price_per_liter = 100 \<rparr>"
  by (simp add: archit_borrows_def run_defs fun_eq_iff)

subsection \<open>ride_end, branch by branch\<close>

text \<open>
  For a registered caller with a pending start, the popped and restored state is the
  given state again, so \<open>ride_end\<close> is this chain of five cases.
\<close>

lemma ride_end_unfold:
  assumes "users s uid = Some b" and "ride_start_map s uid = Some start_km"
  shows "ride_end uid (Some end_km) s =
    (if end_km < start_km then (Inl NegativeDistance, s)
     else if mileage s \<le> 0
     then (Inl NoMileage, s\<lparr>ride_start_map := (ride_start_map s)(uid := None)\<rparr>)
     else if tank s b + tank s (other_bucket b) + 1 / 1000000000 < (end_km - start_km) / mileage s
     then (Inl (InsufficientFuel ((end_km - start_km) / mileage s)
                  (tank s b + tank s (other_bucket b))), s)
     else if (end_km - start_km) / mileage s \<le> tank s b
     then (Inr (RideEnded (end_km - start_km) ((end_km - start_km) / mileage s) 0 (other_bucket b)),
           s\<lparr>ride_start_map := (ride_start_map s)(uid := None),
             tank := (tank s)(b := tank s b - (end_km - start_km) / mileage s)\<rparr>)
     else (Inr (RideEnded (end_km - start_km) ((end_km - start_km) / mileage s)
                  ((end_km - start_km) / mileage s - tank s b) (other_bucket b)),
           s\<lparr>ride_start_map := (ride_start_map s)(uid := None),
             tank := (tank s)(b := 0,
                       other_bucket b := tank s (other_bucket b)
                                          - ((end_km - start_km) / mileage s - tank s b)),
             debt := (debt s)(b := debt s b + ((end_km - start_km) / mileage s - tank s b))\<rparr>))"
proof -
  have restore: "s\<lparr>ride_start_map := (ride_start_map s)(uid \<mapsto> start_km)\<rparr> = s"
    using assms(2) by (simp add: map_upd_triv)
  show ?thesis
    using assms restore
    by (simp add: ride_end_def handler_defs Let_def)
qed

lemma ride_end_no_mileage:
  assumes "users s uid = Some b" and "ride_start_map s uid = Some start_km"
    and "start_km \<le> end_km" and "mileage s \<le> 0"
  shows "ride_end uid (Some end_km) s =
           (Inl NoMileage, s\<lparr>ride_start_map := (ride_start_map s)(uid := None)\<rparr>)"
  using assms by (simp add: ride_end_unfold)

text \<open>
  C4. An accepted ride_end (registered caller, pending start, end reading not below the
  start, positive mileage, used litres within the two tanks plus the tolerance) removes
  the pending start and otherwise: when the caller's tank holds at least the used litres,
  it changes that tank alone, lowering it by exactly the used litres; when it does not,
  it sets the caller's tank to exactly 0, lowers the other tank by exactly
  \<open>borrowed = used - tank[me]\<close> and raises the caller's debt by exactly
  \<open>max 0 (used - tank[me])\<close>.
\<close>

theorem ride_end_accepted:
  assumes "users s uid = Some b" and "ride_start_map s uid = Some start_km"
    and "start_km \<le> end_km" and "0 < mileage s"
    and "(end_km - start_km) / mileage s \<le> tank s b + tank s (other_bucket b) + 1 / 1000000000"
  shows "ride_end uid (Some end_km) s =
    (if (end_km - start_km) / mileage s \<le> tank s b
     then (Inr (RideEnded (end_km - start_km) ((end_km - start_km) / mileage s) 0 (other_bucket b)),
           s\<lparr>ride_start_map := (ride_start_map s)(uid := None),
             tank := (tank s)(b := tank s b - (end_km - start_km) / mileage s)\<rparr>)
     else (Inr (RideEnded (end_km - start_km) ((end_km - start_km) / mileage s)
                  ((end_km - start_km) / mileage s - tank s b) (other_bucket b)),
           s\<lparr>ride_start_map := (ride_start_map s)(uid := None),
             tank := (tank s)(b := 0,
                       other_bucket b := tank s (other_bucket b)
                                          - ((end_km - start_km) / mileage s - tank s b)),
             debt := (debt s)(b := debt s b
                                    + max 0 ((end_km - start_km) / mileage s - tank s b))\<rparr>))"
proof -
  have "max 0 ((end_km - start_km) / mileage s - tank s b) = (end_km - start_km) / mileage s - tank s b"
    if "\<not> (end_km - start_km) / mileage s \<le> tank s b"
    using that by simp
  then show ?thesis
    using assms by (simp add: ride_end_unfold)
qed

theorem ride_end_accepted_witness:
  "ride_end ''u1'' (Some 200) (exec own_fuel default_state) =
     (Inr (RideEnded 200 5 0 Archit),
      \<lparr> users = [''u1'' \<mapsto> Aditya], tank = (\<lambda>b. 0)(Aditya := 5), debt = (\<lambda>b. 0),
        ride_start_map = Map.empty, mileage = 40, last_price_per_liter = 100 \<rparr>) \<and>
   ride_end ''u1'' (Some 40) (exec ride_ready default_state) =
     (Inr (RideEnded 40 1 1 Archit),
      \<lparr> users = [''u1'' \<mapsto> Aditya, ''u2'' \<mapsto> Archit], tank = (\<lambda>b. 0)(Archit := 19),
        debt = (\<lambda>b. 0)(Aditya := 1),
        ride_start_map = Map.empty, mileage = 40, last_price_per_liter = 100 \<rparr>)"
proof -
  let ?s = "exec own_fuel default_state" and ?t = "exec ride_ready default_state"
  have s: "users ?s ''u1'' = Some Aditya" "ride_start_map ?s ''u1'' = Some 0"
    "(0::real) \<le> 200" "0 < mileage ?s"
    "(200 - 0) / mileage ?s \<le> tank ?s Aditya + tank ?s (other_bucket Aditya) + 1 / 1000000000"
    by (simp_all add: own_fuel_state other_bucket_def)
  have t: "users ?t ''u1'' = Some Aditya" "ride_start_map ?t ''u1'' = Some 0"
    "(0::real) \<le> 40" "0 < mileage ?t"
    "(40 - 0) / mileage ?t \<le> tank ?t Aditya + tank ?t (other_bucket Aditya) + 1 / 1000000000"
    by (simp_all add: ride_ready_state other_bucket_def)
  have "ride_end ''u1'' (Some 200) ?s =
     (Inr (RideEnded 200 5 0 Archit),
      \<lparr> users = [''u1'' \<mapsto> Aditya], tank = (\<lambda>b. 0)(Aditya := 5), debt = (\<lambda>b. 0),
        ride_start_map = Map.empty, mileage = 40, last_price_per_liter = 100 \<rparr>)"
    using ride_end_accepted [OF s] by (simp add: own_fuel_state other_bucket_def fun_eq_iff)
  moreover have "ride_end ''u1'' (Some 40) ?t =
     (Inr (RideEnded 40 1 1 Archit),
      \<lparr> users = [''u1'' \<mapsto> Aditya, ''u2'' \<mapsto> Archit], tank = (\<lambda>b. 0)(Archit := 19),
        debt = (\<lambda>b. 0)(Aditya := 1),
        ride_start_map = Map.empty, mileage = 40, last_price_per_liter = 100 \<rparr>)"
    using ride_end_accepted [OF t] by (simp add: ride_ready_state other_bucket_def fun_eq_iff)
  ultimately show ?thesis by simp
qed

text \<open>
  C7. For a registered caller with a pending start: an end reading below the start is
  refused with NegativeDistance, a ride that needs more than both tanks hold plus the
  tolerance is refused with InsufficientFuel, and whenever ride_end answers with either
  of the two, the state it leaves is the state it was given, the pending start included,
  so ride_end can be called again at once.
\<close>

theorem ride_end_restores:
  assumes "users s uid = Some b" and "ride_start_map s uid = Some start_km"
  shows "(end_km < start_km \<longrightarrow> ride_end uid (Some end_km) s = (Inl NegativeDistance, s)) \<and>
    (start_km \<le> end_km \<and> 0 < mileage s \<and>
     tank s b + tank s (other_bucket b) + 1 / 1000000000 < (end_km - start_km) / mileage s \<longrightarrow>
       ride_end uid (Some end_km) s =
         (Inl (InsufficientFuel ((end_km - start_km) / mileage s)
                 (tank s b + tank s (other_bucket b))), s)) \<and>
    (fst (ride_end uid arg s) = Inl NegativeDistance \<or>
     fst (ride_end uid arg s) = Inl (InsufficientFuel u a) \<longrightarrow>
       snd (ride_end uid arg s) = s \<and> ride_start_map (snd (ride_end uid arg s)) uid = Some start_km)"
proof -
  have "snd (ride_end uid arg s) = s"
    if "fst (ride_end uid arg s) = Inl NegativeDistance \<or>
        fst (ride_end uid arg s) = Inl (InsufficientFuel u a)"
  proof (cases arg)
    case None
    with that assms show ?thesis by (simp add: ride_end_def handler_defs)
  next
    case (Some end_km')
    with that show ?thesis
      by (simp add: ride_end_unfold [OF assms] split: if_splits)
  qed
  then show ?thesis
    using assms by (auto simp add: ride_end_unfold)
qed

theorem ride_end_restores_witness:
  "ride_end ''u1'' (Some (- 3)) (exec ride_ready default_state) =
     (Inl NegativeDistance, exec ride_ready default_state) \<and>
   ride_end ''u1'' (Some 1000) (exec ride_ready default_state) =
     (Inl (InsufficientFuel 25 20), exec ride_ready default_state) \<and>
   ride_start_map (snd (ride_end ''u1'' (Some 1000) (exec ride_ready default_state))) ''u1'' = Some 0"
proof -
  let ?t = "exec ride_ready default_state"
  have t: "users ?t ''u1'' = Some Aditya" "ride_start_map ?t ''u1'' = Some 0"
    by (simp_all add: ride_ready_state)
  have neg: "ride_end ''u1'' (Some (- 3)) ?t = (Inl NegativeDistance, ?t)"
    using ride_end_restores [OF t, of "- 3"] by simp
  have ins: "ride_end ''u1'' (Some 1000) ?t = (Inl (InsufficientFuel 25 20), ?t)"
    using ride_end_restores [OF t, of 1000] by (simp add: ride_ready_state other_bucket_def)
  have "ride_start_map (snd (ride_end ''u1'' (Some 1000) ?t)) ''u1'' = Some 0"
    using ride_end_restores [OF t, of _ "Some 1000" 25 20] ins by simp
  with neg ins show ?thesis by simp
qed

subsection \<open>fill and pay on a registered caller\<close>

lemma fill_unfold:
  assumes "users s uid = Some b"
  shows "fill uid (Some liters) (Some total_cost) s =
    (if liters \<le> 0 \<or> total_cost \<le> 0 then (Inl InvalidValue, s)
     else if 0 < min liters (debt s b)
     then (Inr (FillRecorded (min liters (debt s b)) (liters - min liters (debt s b))
                  (total_cost / liters)),
           s\<lparr>last_price_per_liter := total_cost / liters,
             debt := (debt s)(b := debt s b - min liters (debt s b)),
             tank := (tank s)(other_bucket b := tank s (other_bucket b) + min liters (debt s b),
                       b := tank s b + (liters - min liters (debt s b)))\<rparr>)
     else (Inr (FillRecorded (min liters (debt s b)) (liters - min liters (debt s b))
                  (total_cost / liters)),
           s\<lparr>last_price_per_liter := total_cost / liters,
             tank := (tank s)(b := tank s b + (liters - min liters (debt s b)))\<rparr>))"
  using assms by (simp add: fill_def handler_defs Let_def)

lemma fill_invalid:
  "users s uid = Some b \<Longrightarrow> a0 = None \<or> a1 = None \<Longrightarrow> fill uid a0 a1 s = (Inl InvalidValue, s)"
  by (auto simp add: fill_def handler_defs split: option.splits)

lemma pay_full_unfold:
  assumes "users s uid = Some b"
  shows "pay uid (Some Full) s =
     (if debt s b \<le> 0 then (Inl NoDebt, s)
      else (Inr (DebtClearedFull (debt s b)),
            s\<lparr>debt := (debt s)(b := 0),
              tank := (tank s)(other_bucket b := tank s (other_bucket b) + debt s b)\<rparr>))"
  using assms by (simp add: pay_def handler_defs Let_def)

lemma pay_cash_unfold:
  assumes "users s uid = Some b"
  shows "pay uid (Some (Amount amount)) s =
     (if amount \<le> 0 then (Inl InvalidValue, s)
      else if last_price_per_liter s \<le> 0 then (Inl NoPriceSet, s)
      else if debt s b < 1 / 1000000000 then (Inl NoDebt, s)
      else (Inr (Paid amount (min (debt s b) (amount / last_price_per_liter s))
                   (debt s b - min (debt s b) (amount / last_price_per_liter s))),
            s\<lparr>debt := (debt s)(b := debt s b - min (debt s b) (amount / last_price_per_liter s)),
              tank := (tank s)(other_bucket b :=
                  tank s (other_bucket b) + min (debt s b) (amount / last_price_per_liter s))\<rparr>))"
  using assms by (simp add: pay_def handler_defs Let_def)

lemma pay_other_args:
  "users s uid = Some b \<Longrightarrow> pay uid None s = (Inl UsageError, s)"
  "users s uid = Some b \<Longrightarrow> pay uid (Some Unparsable) s = (Inl InvalidValue, s)"
  by (simp_all add: pay_def handler_defs Let_def)

lemma not_registered:
  assumes "users s uid = None"
  shows "set_mileage uid a s = (Inl NotRegistered, s)"
    and "ride_start uid a s = (Inl NotRegistered, s)"
    and "ride_end uid a s = (Inl NotRegistered, s)"
    and "fill uid a0 a1 s = (Inl NotRegistered, s)"
    and "status uid s = (Inl NotRegistered, s)"
    and "settle uid s = (Inl NotRegistered, s)"
    and "pay uid pa s = (Inl NotRegistered, s)"
  using assms
  by (simp_all add: set_mileage_def ride_start_def ride_end_def fill_def status_def settle_def
      pay_def handler_defs)

subsection \<open>Refusals\<close>

text \<open>
  A refusal other than NoMileage returns the state it was given. No reachable state has
  a mileage that is not positive, so NoMileage is never answered on a run from
  \<open>default_state\<close>.
\<close>

lemma ride_end_refusal_pure:
  assumes "fst (ride_end uid a s) = Inl e" and "e \<noteq> NoMileage"
  shows "snd (ride_end uid a s) = s"
proof (cases "users s uid")
  case None
  then show ?thesis by (simp add: not_registered)
next
  case (Some b)
  note reg = this
  show ?thesis
  proof (cases "ride_start_map s uid")
    case None
    with reg show ?thesis by (simp add: ride_end_def handler_defs)
  next
    case (Some start_km)
    note pend = this
    show ?thesis
    proof (cases a)
      case None
      with reg pend show ?thesis by (simp add: ride_end_def handler_defs)
    next
      case (Some end_km)
      with assms show ?thesis
        by (simp add: ride_end_unfold [OF reg pend] split: if_splits)
    qed
  qed
qed

lemma refusal_pure:
  assumes "fst (handle c s) = Inl e" and "e \<noteq> NoMileage"
  shows "snd (handle c s) = s"
proof (cases c)
  case (RideEnd uid a)
  with assms show ?thesis by (simp add: ride_end_refusal_pure)
next
  case (Fill uid a0 a1)
  with assms show ?thesis
    by (auto simp add: fill_def handler_defs Let_def split: option.splits if_splits)
next
  case (Pay uid a)
  with assms show ?thesis
    by (auto simp add: pay_def handler_defs Let_def split: option.splits if_splits pay_arg.splits)
qed (use assms in \<open>auto simp add: start_def register_def set_mileage_def ride_start_def
      status_def settle_def reset_def unknown_def handler_defs Let_def
      split: option.splits if_splits\<close>)

lemma mileage_handle: "0 < mileage s \<Longrightarrow> 0 < mileage (snd (handle c s))"
  by (cases c)
    (auto simp add: run_defs map_upd_triv split: option.splits if_splits pay_arg.splits)

lemma mileage_exec: "0 < mileage s \<Longrightarrow> 0 < mileage (exec cs s)"
  by (induction cs arbitrary: s) (simp_all add: mileage_handle)

lemma reachable_mileage_positive: "0 < mileage (exec cs default_state)"
  by (rule mileage_exec) (simp add: default_state_def DEFAULT_MILEAGE_def)

text \<open>
  C3. Every refusal is meant to leave the state as it was, and every refusal but one
  does (\<open>refusal_pure\<close>). At a state with a pending start of 100 and mileage 0,
  \<open>ride_end\<close> with end reading 150 answers NoMileage, and the state it leaves has lost
  the pending start: the pop of line 165 is not undone on this path, as it is on the two
  neighbouring refusals.
\<close>

theorem ride_end_no_mileage_drops_start:
  "ride_end ''u1'' (Some 150) no_mileage_state =
     (Inl NoMileage, no_mileage_state\<lparr>ride_start_map := Map.empty\<rparr>) \<and>
   ride_start_map no_mileage_state ''u1'' = Some 100 \<and>
   ride_start_map (snd (ride_end ''u1'' (Some 150) no_mileage_state)) ''u1'' = None \<and>
   snd (ride_end ''u1'' (Some 150) no_mileage_state) \<noteq> no_mileage_state"
proof -
  have r: "ride_end ''u1'' (Some 150) no_mileage_state =
     (Inl NoMileage, no_mileage_state\<lparr>ride_start_map := Map.empty\<rparr>)"
    by (simp add: no_mileage_state_def run_defs)
  have p: "ride_start_map no_mileage_state ''u1'' = Some 100"
    by (simp add: no_mileage_state_def)
  have "ride_start_map (no_mileage_state\<lparr>ride_start_map := Map.empty\<rparr>) ''u1''
          \<noteq> ride_start_map no_mileage_state ''u1''"
    using p by simp
  then have "no_mileage_state\<lparr>ride_start_map := Map.empty\<rparr> \<noteq> no_mileage_state"
    by metis
  with r p show ?thesis by simp
qed

subsection \<open>Signs of the balances\<close>

text \<open>
  No command takes a debt below 0, so the debts of every reachable state are at least 0.
\<close>

lemma debts_ok_bucket:
  "debts_ok s \<longleftrightarrow> 0 \<le> debt s b \<and> 0 \<le> debt s (other_bucket b)"
  by (cases b) (auto simp add: debts_ok_def other_bucket_def)


lemma debts_ok_ride_end:
  assumes "debts_ok s"
  shows "debts_ok (snd (ride_end uid a s))"
proof (cases "users s uid")
  case None
  with assms show ?thesis by (simp add: not_registered)
next
  case (Some b)
  note reg = this
  show ?thesis
  proof (cases "ride_start_map s uid")
    case None
    with assms reg show ?thesis by (simp add: ride_end_def handler_defs)
  next
    case (Some start_km)
    note pend = this
    show ?thesis
    proof (cases a)
      case None
      with assms reg pend show ?thesis by (simp add: ride_end_def handler_defs)
    next
      case (Some end_km)
      from assms have ok: "0 \<le> debt s b" "0 \<le> debt s (other_bucket b)"
        using debts_ok_bucket [of s b] by simp_all
      show ?thesis
        unfolding Some ride_end_unfold [OF reg pend] debts_ok_bucket [of _ b]
        using ok by simp
    qed
  qed
qed

lemma debts_ok_fill:
  assumes "debts_ok s"
  shows "debts_ok (snd (fill uid a0 a1 s))"
proof (cases "users s uid")
  case None
  with assms show ?thesis by (simp add: not_registered)
next
  case (Some b)
  note reg = this
  from assms have ok: "0 \<le> debt s b" "0 \<le> debt s (other_bucket b)"
    using debts_ok_bucket [of s b] by simp_all
  show ?thesis
  proof (cases "a0 = None \<or> a1 = None")
    case True
    with assms reg show ?thesis by (simp add: fill_invalid)
  next
    case False
    then obtain liters total_cost where args: "a0 = Some liters" "a1 = Some total_cost"
      by auto
    show ?thesis
      unfolding args fill_unfold [OF reg] debts_ok_bucket [of _ b]
      using ok by simp
  qed
qed

lemma debts_ok_pay:
  assumes "debts_ok s"
  shows "debts_ok (snd (pay uid a s))"
proof (cases "users s uid")
  case None
  with assms show ?thesis by (simp add: not_registered)
next
  case (Some b)
  note reg = this
  from assms have ok: "0 \<le> debt s b" "0 \<le> debt s (other_bucket b)"
    using debts_ok_bucket [of s b] by simp_all
  show ?thesis
  proof (cases a)
    case None
    with assms reg show ?thesis by (simp add: pay_other_args)
  next
    case (Some pa)
    show ?thesis
      unfolding Some debts_ok_bucket [of _ b]
      using ok
      by (cases pa)
        (simp_all add: pay_full_unfold [OF reg] pay_cash_unfold [OF reg] pay_other_args [OF reg])
  qed
qed

lemma debts_ok_handle: "debts_ok s \<Longrightarrow> debts_ok (snd (handle c s))"
  by (cases c)
    (simp_all add: debts_ok_ride_end debts_ok_fill debts_ok_pay,
     simp_all add: debts_ok_def start_def register_def set_mileage_def ride_start_def status_def
       settle_def reset_def unknown_def default_state_def Let_def split: option.splits)

lemma debts_ok_exec: "debts_ok s \<Longrightarrow> debts_ok (exec cs s)"
  by (induction cs arbitrary: s) (simp_all add: debts_ok_handle)

lemma reachable_debt_nonneg: "0 \<le> debt (exec cs default_state) b"
proof -
  have "debts_ok default_state"
    by (simp add: debts_ok_def default_state_def)
  then have "debts_ok (exec cs default_state)"
    by (rule debts_ok_exec)
  then show ?thesis
    by (cases b) (simp_all add: debts_ok_def)
qed









subsection \<open>fill\<close>

text \<open>
  C5. In every reachable state, for a registered caller: a fill with positive litres and
  positive cost is accepted, sets the last price to cost / litres, takes
  \<open>clear = min (litres, debt[bucket])\<close> off the caller's debt and adds it to the other
  bucket's tank, and adds the remainder \<open>litres - clear\<close> to the caller's own tank,
  changing nothing else; a fill with non-positive litres or cost is refused with
  InvalidValue and leaves the state as it was.
\<close>

theorem fill_accepted:
  assumes "s = exec cs default_state" and "users s uid = Some b"
  shows "(0 < liters \<and> 0 < total_cost \<longrightarrow>
      fill uid (Some liters) (Some total_cost) s =
        (Inr (FillRecorded (min liters (debt s b)) (liters - min liters (debt s b))
                (total_cost / liters)),
         s\<lparr>last_price_per_liter := total_cost / liters,
           debt := (debt s)(b := debt s b - min liters (debt s b)),
           tank := (tank s)(other_bucket b := tank s (other_bucket b) + min liters (debt s b),
                     b := tank s b + (liters - min liters (debt s b)))\<rparr>)) \<and>
    (liters \<le> 0 \<or> total_cost \<le> 0 \<longrightarrow>
      fill uid (Some liters) (Some total_cost) s = (Inl InvalidValue, s))"
proof -
  have d: "0 \<le> debt s b"
    using assms(1) reachable_debt_nonneg by simp
  have "min liters (debt s b) = 0" if "0 < liters" "\<not> 0 < min liters (debt s b)"
    using that d by (simp add: min_def split: if_splits)
  then show ?thesis
    by (auto simp add: fill_unfold [OF assms(2)] fun_upd_idem)
qed

theorem fill_accepted_witness:
  "users (exec borrow_run default_state) ''u1'' = Some Aditya \<and>
   fill ''u1'' (Some 5) (Some 500) (exec borrow_run default_state) =
     (Inr (FillRecorded 1 4 100),
      \<lparr> users = [''u1'' \<mapsto> Aditya, ''u2'' \<mapsto> Archit],
        tank = (\<lambda>b. 0)(Archit := 20, Aditya := 4),
        debt = (\<lambda>b. 0),
        ride_start_map = Map.empty, mileage = 40, last_price_per_liter = 100 \<rparr>) \<and>
   fill ''u1'' (Some 0) (Some 500) (exec borrow_run default_state) =
     (Inl InvalidValue, exec borrow_run default_state)"
proof -
  let ?s = "exec borrow_run default_state"
  have r: "users ?s ''u1'' = Some Aditya"
    by (simp add: borrow_run_state)
  have "fill ''u1'' (Some 5) (Some 500) ?s =
     (Inr (FillRecorded 1 4 100),
      \<lparr> users = [''u1'' \<mapsto> Aditya, ''u2'' \<mapsto> Archit],
        tank = (\<lambda>b. 0)(Archit := 20, Aditya := 4),
        debt = (\<lambda>b. 0),
        ride_start_map = Map.empty, mileage = 40, last_price_per_liter = 100 \<rparr>)"
    using fill_accepted [OF refl r, of 5 500]
    by (simp add: borrow_run_state other_bucket_def fun_eq_iff)
  moreover have "fill ''u1'' (Some 0) (Some 500) ?s = (Inl InvalidValue, ?s)"
    using fill_accepted [OF refl r, of 0 500] by simp
  ultimately show ?thesis using r by simp
qed

subsection \<open>Total litres in the tanks\<close>











subsection \<open>Cash-mode pay\<close>

text \<open>
  C6. A cash payment by a registered caller with a positive amount, a positive last price
  and a debt of at least the tolerance \<open>1e-9\<close> is accepted; it clears exactly
  \<open>min (debt, amount / price)\<close> litres, which leave the caller's debt and enter the tank
  of the other bucket (Archit's for Aditya, Aditya's for Archit, never the caller's
  own), nothing else changes, and the caller's debt afterwards is not negative, however
  large the amount. The witness pays once as Aditya and once as Archit.
\<close>

theorem pay_cash:
  "users s uid = Some b \<Longrightarrow> 0 < amount \<Longrightarrow> 0 < last_price_per_liter s \<Longrightarrow>
   1 / 1000000000 \<le> debt s b \<Longrightarrow>
   pay uid (Some (Amount amount)) s =
     (Inr (Paid amount (min (debt s b) (amount / last_price_per_liter s))
             (debt s b - min (debt s b) (amount / last_price_per_liter s))),
      s\<lparr>debt := (debt s)(b := debt s b - min (debt s b) (amount / last_price_per_liter s)),
        tank := (tank s)(other_bucket b :=
                  tank s (other_bucket b) + min (debt s b) (amount / last_price_per_liter s))\<rparr>) \<and>
   other_bucket b \<noteq> b \<and>
   other_bucket b = (case b of Aditya \<Rightarrow> Archit | Archit \<Rightarrow> Aditya) \<and>
   0 \<le> debt (snd (pay uid (Some (Amount amount)) s)) b"
  by (cases b) (simp_all add: pay_def handler_defs Let_def other_bucket_def)

theorem pay_cash_witness:
  "users (exec borrow_run default_state) ''u1'' = Some Aditya \<and>
   tank (exec borrow_run default_state) = (\<lambda>b. 0)(Archit := 19) \<and>
   debt (exec borrow_run default_state) = (\<lambda>b. 0)(Aditya := 1) \<and>
   fst (pay ''u1'' (Some (Amount 250)) (exec borrow_run default_state)) = Inr (Paid 250 1 0) \<and>
   debt (snd (pay ''u1'' (Some (Amount 250)) (exec borrow_run default_state))) = (\<lambda>b. 0) \<and>
   tank (snd (pay ''u1'' (Some (Amount 250)) (exec borrow_run default_state))) =
     (\<lambda>b. 0)(Archit := 20) \<and>
   users (exec archit_borrows default_state) ''u2'' = Some Archit \<and>
   tank (exec archit_borrows default_state) = (\<lambda>b. 0)(Aditya := 19) \<and>
   debt (exec archit_borrows default_state) = (\<lambda>b. 0)(Archit := 1) \<and>
   fst (pay ''u2'' (Some (Amount 50)) (exec archit_borrows default_state)) =
     Inr (Paid 50 (1 / 2) (1 / 2)) \<and>
   debt (snd (pay ''u2'' (Some (Amount 50)) (exec archit_borrows default_state))) =
     (\<lambda>b. 0)(Archit := 1 / 2) \<and>
   tank (snd (pay ''u2'' (Some (Amount 50)) (exec archit_borrows default_state))) =
     (\<lambda>b. 0)(Aditya := 39 / 2)"
proof -
  let ?s = "exec borrow_run default_state" and ?t = "exec archit_borrows default_state"
  have s: "users ?s ''u1'' = Some Aditya" "(0::real) < 250" "0 < last_price_per_liter ?s"
    "1 / 1000000000 \<le> debt ?s Aditya"
    by (simp_all add: borrow_run_state)
  have t: "users ?t ''u2'' = Some Archit" "(0::real) < 50" "0 < last_price_per_liter ?t"
    "1 / 1000000000 \<le> debt ?t Archit"
    by (simp_all add: archit_borrows_state)
  have "fst (pay ''u1'' (Some (Amount 250)) ?s) = Inr (Paid 250 1 0)"
    and "debt (snd (pay ''u1'' (Some (Amount 250)) ?s)) = (\<lambda>b. 0)"
    and "tank (snd (pay ''u1'' (Some (Amount 250)) ?s)) = (\<lambda>b. 0)(Archit := 20)"
    using pay_cash [OF s] by (simp_all add: borrow_run_state fun_eq_iff)
  moreover
  have "fst (pay ''u2'' (Some (Amount 50)) ?t) = Inr (Paid 50 (1 / 2) (1 / 2))"
    and "debt (snd (pay ''u2'' (Some (Amount 50)) ?t)) = (\<lambda>b. 0)(Archit := 1 / 2)"
    and "tank (snd (pay ''u2'' (Some (Amount 50)) ?t)) = (\<lambda>b. 0)(Aditya := 39 / 2)"
    using pay_cash [OF t] by (simp_all add: archit_borrows_state fun_eq_iff)
  ultimately show ?thesis
    using s(1) t(1) by (simp add: borrow_run_state archit_borrows_state)
qed

subsection \<open>settle\<close>

text \<open>
  C8. For a registered caller, settle refuses with NoPriceSet exactly when the last price
  is not positive; otherwise it reports the caller's debt in litres and that debt times
  the last price. In both cases the state it leaves is the state it was given.
\<close>

theorem settle_pure:
  "users s uid = Some b \<Longrightarrow>
   settle uid s =
     (if last_price_per_liter s \<le> 0 then Inl NoPriceSet
      else Inr (SettleReport (debt s b) (last_price_per_liter s)
                  (debt s b * last_price_per_liter s)),
      s) \<and>
   (fst (settle uid s) = Inl NoPriceSet \<longleftrightarrow> last_price_per_liter s \<le> 0)"
  by (simp add: settle_def handler_defs Let_def)

theorem settle_pure_witness:
  "users (exec borrow_run default_state) ''u1'' = Some Aditya \<and>
   settle ''u1'' (exec borrow_run default_state) =
     (Inr (SettleReport 1 100 100), exec borrow_run default_state) \<and>
   users (exec tiny_ride default_state) ''u1'' = Some Aditya \<and>
   settle ''u1'' (exec tiny_ride default_state) = (Inl NoPriceSet, exec tiny_ride default_state)"
proof -
  have r1: "users (exec borrow_run default_state) ''u1'' = Some Aditya"
    by (simp add: borrow_run_state)
  have r2: "users (exec tiny_ride default_state) ''u1'' = Some Aditya"
    by (simp add: tiny_ride_state)
  from settle_pure [OF r1] have "settle ''u1'' (exec borrow_run default_state) =
     (Inr (SettleReport 1 100 100), exec borrow_run default_state)"
    by (simp add: borrow_run_state)
  moreover from settle_pure [OF r2] have
    "settle ''u1'' (exec tiny_ride default_state) = (Inl NoPriceSet, exec tiny_ride default_state)"
    by (simp add: tiny_ride_state)
  ultimately show ?thesis using r1 r2 by simp
qed

subsection \<open>Full-mode pay\<close>

text \<open>
  C9. For a registered caller, \<open>pay full\<close> never looks at the price: it refuses with
  NoDebt when the caller's debt is not positive, and otherwise sets that debt to 0 and
  adds the whole of it to the tank of the other bucket (Archit's for Aditya, Aditya's for
  Archit, never the caller's own), changing nothing else. It never answers NoPriceSet.
  The witness pays in a reachable state whose last price is 0 and whose debt is positive,
  pays as Archit into Aditya's tank, and is refused where the caller owes nothing.
\<close>

theorem pay_full:
  "users s uid = Some b \<Longrightarrow>
   pay uid (Some Full) s =
     (if debt s b \<le> 0 then (Inl NoDebt, s)
      else (Inr (DebtClearedFull (debt s b)),
            s\<lparr>debt := (debt s)(b := 0),
              tank := (tank s)(other_bucket b := tank s (other_bucket b) + debt s b)\<rparr>)) \<and>
   other_bucket b \<noteq> b \<and>
   other_bucket b = (case b of Aditya \<Rightarrow> Archit | Archit \<Rightarrow> Aditya) \<and>
   fst (pay uid (Some Full) s) \<noteq> Inl NoPriceSet"
  by (cases b) (simp_all add: pay_def handler_defs Let_def other_bucket_def)

theorem pay_full_witness:
  "users (exec tiny_ride default_state) ''u1'' = Some Aditya \<and>
   last_price_per_liter (exec tiny_ride default_state) = 0 \<and>
   debt (exec tiny_ride default_state) = (\<lambda>b. 0)(Aditya := 1 / 1073741824) \<and>
   tank (exec tiny_ride default_state) = (\<lambda>b. 0)(Archit := - (1 / 1073741824)) \<and>
   fst (pay ''u1'' (Some Full) (exec tiny_ride default_state)) =
     Inr (DebtClearedFull (1 / 1073741824)) \<and>
   debt (snd (pay ''u1'' (Some Full) (exec tiny_ride default_state))) = (\<lambda>b. 0) \<and>
   tank (snd (pay ''u1'' (Some Full) (exec tiny_ride default_state))) = (\<lambda>b. 0) \<and>
   users (exec archit_borrows default_state) ''u2'' = Some Archit \<and>
   tank (exec archit_borrows default_state) = (\<lambda>b. 0)(Aditya := 19) \<and>
   debt (exec archit_borrows default_state) = (\<lambda>b. 0)(Archit := 1) \<and>
   fst (pay ''u2'' (Some Full) (exec archit_borrows default_state)) = Inr (DebtClearedFull 1) \<and>
   debt (snd (pay ''u2'' (Some Full) (exec archit_borrows default_state))) = (\<lambda>b. 0) \<and>
   tank (snd (pay ''u2'' (Some Full) (exec archit_borrows default_state))) =
     (\<lambda>b. 0)(Aditya := 20) \<and>
   users (exec borrow_run default_state) ''u2'' = Some Archit \<and>
   pay ''u2'' (Some Full) (exec borrow_run default_state) =
     (Inl NoDebt, exec borrow_run default_state)"
proof -
  let ?s = "exec tiny_ride default_state" and ?t = "exec archit_borrows default_state"
  let ?u = "exec borrow_run default_state"
  have s: "users ?s ''u1'' = Some Aditya"
    by (simp add: tiny_ride_state)
  have t: "users ?t ''u2'' = Some Archit"
    by (simp add: archit_borrows_state)
  have u: "users ?u ''u2'' = Some Archit"
    by (simp add: borrow_run_state)
  have "fst (pay ''u1'' (Some Full) ?s) = Inr (DebtClearedFull (1 / 1073741824))"
    and "debt (snd (pay ''u1'' (Some Full) ?s)) = (\<lambda>b. 0)"
    and "tank (snd (pay ''u1'' (Some Full) ?s)) = (\<lambda>b. 0)"
    using pay_full [OF s] by (simp_all add: tiny_ride_state fun_eq_iff)
  moreover
  have "fst (pay ''u2'' (Some Full) ?t) = Inr (DebtClearedFull 1)"
    and "debt (snd (pay ''u2'' (Some Full) ?t)) = (\<lambda>b. 0)"
    and "tank (snd (pay ''u2'' (Some Full) ?t)) = (\<lambda>b. 0)(Aditya := 20)"
    using pay_full [OF t] by (simp_all add: archit_borrows_state fun_eq_iff)
  moreover
  have "pay ''u2'' (Some Full) ?u = (Inl NoDebt, ?u)"
    using pay_full [OF u] by (simp add: borrow_run_state)
  ultimately show ?thesis
    using s t u by (simp add: tiny_ride_state archit_borrows_state)
qed

subsection \<open>ride_start\<close>

text \<open>
  C10. For a registered caller and any odometer value (zero and negative ones too),
  ride_start is accepted and stores exactly that value as the caller's pending start,
  over any value already there; no other field of the state changes.
\<close>

theorem ride_start_no_validation:
  "users s uid = Some b \<Longrightarrow>
   ride_start uid (Some km) s =
     (Inr (RideStarted km), s\<lparr>ride_start_map := (ride_start_map s)(uid \<mapsto> km)\<rparr>)"
  by (simp add: ride_start_def handler_defs)

theorem ride_start_no_validation_witness:
  "users (exec [Register ''u1'' (Some ''Aditya''), RideStart ''u1'' (Some 7)] default_state) ''u1''
     = Some Aditya \<and>
   ride_start_map (exec [Register ''u1'' (Some ''Aditya''), RideStart ''u1'' (Some 7)] default_state)
     ''u1'' = Some 7 \<and>
   ride_start ''u1'' (Some (- 5))
     (exec [Register ''u1'' (Some ''Aditya''), RideStart ''u1'' (Some 7)] default_state) =
     (Inr (RideStarted (- 5)),
      (exec [Register ''u1'' (Some ''Aditya''), RideStart ''u1'' (Some 7)] default_state)
        \<lparr>ride_start_map := [''u1'' \<mapsto> - 5]\<rparr>)"
proof -
  let ?s = "exec [Register ''u1'' (Some ''Aditya''), RideStart ''u1'' (Some 7)] default_state"
  have reg: "users ?s ''u1'' = Some Aditya"
    by (simp add: run_defs)
  have pend: "ride_start_map ?s ''u1'' = Some 7"
    by (simp add: run_defs)
  have upd: "(ride_start_map ?s)(''u1'' \<mapsto> - 5) = [''u1'' \<mapsto> - 5]"
    by (simp add: run_defs)
  from ride_start_no_validation [OF reg, of "- 5"] reg pend upd show ?thesis
    by simp
qed

end
